theory Spec2Isabelle
  imports Main "HOL-Library.Sublist"
begin

chapter \<open>NomadCrew frontend: todo list, trip form, auth store and trip filter\<close>

text \<open>
  A shallow embedding of the parts of the application that carry logic:
  \<^item> \<^verbatim>\<open>src/components/todo/TodoList.tsx\<close>: pagination, retry, item actions,
    the views of the list and the connection banner;
  \<^item> \<^verbatim>\<open>src/components/trips/CreateTripModal.tsx\<close>: \<^verbatim>\<open>validateForm\<close> and
    \<^verbatim>\<open>handleSubmit\<close>;
  \<^item> the auth store and the secure token manager (in the source bundle
    \<^verbatim>\<open>src/components/ui/Avatar.tsx\<close>): \<^verbatim>\<open>recoverSession\<close>, \<^verbatim>\<open>initialize\<close>,
    \<^verbatim>\<open>logout\<close>, \<^verbatim>\<open>BasicTokenManager\<close>;
  \<^item> \<^verbatim>\<open>src/app/(tabs)/trips.tsx\<close>: \<^verbatim>\<open>filteredTrips\<close>.

  Calls into the stores, the backend client and the parent component are effects; a
  handler is modelled by the list of effects it issues, in order. What an awaited call
  answers (a page, a rejection, a sign-out error) is an argument of the model.
\<close>

section \<open>JavaScript strings\<close>

text \<open>
  A JavaScript string is a \<^typ>\<open>string\<close>, the list of its characters; it is truthy when
  it is not empty, and \<^verbatim>\<open>===\<close> on two strings is equality. The string functions of the
  engine that the code calls (\<^verbatim>\<open>trim\<close>, \<^verbatim>\<open>toUpperCase\<close>, \<^verbatim>\<open>toLowerCase\<close>) are not
  defined here: each model that calls one takes it as an argument, under its own name,
  as it takes the Date constructor, and what is proved holds whatever these functions
  are.
\<close>

text \<open>\<^verbatim>\<open>s.includes(q)\<close>: \<open>q\<close> occurs in \<open>s\<close> as a contiguous run of characters.\<close>

fun includes_str :: "string \<Rightarrow> string \<Rightarrow> bool" where
  "includes_str [] q = (q = [])"
| "includes_str (c # cs) q = (prefix q (c # cs) \<or> includes_str cs q)"

subsection \<open>The engine's string functions on the strings of the examples\<close>

text \<open>
  The examples are ASCII text. On ASCII text, \<^verbatim>\<open>toUpperCase\<close> and \<^verbatim>\<open>toLowerCase\<close> change
  the letters a to z and A to Z and nothing else, and \<^verbatim>\<open>trim\<close> removes TAB, LF, VT, FF,
  CR and SPACE from both ends. The functions below are used on such strings only.
\<close>

definition example_upper_char :: "char \<Rightarrow> char" where
  "example_upper_char c =
     (let n = (of_char c :: nat) in if 97 \<le> n \<and> n \<le> 122 then char_of (n - 32) else c)"

definition example_lower_char :: "char \<Rightarrow> char" where
  "example_lower_char c =
     (let n = (of_char c :: nat) in if 65 \<le> n \<and> n \<le> 90 then char_of (n + 32) else c)"

definition example_toUpperCase :: "string \<Rightarrow> string" where
  "example_toUpperCase s = map example_upper_char s"

definition example_toLowerCase :: "string \<Rightarrow> string" where
  "example_toLowerCase s = map example_lower_char s"

definition example_space :: "char \<Rightarrow> bool" where
  "example_space c = (let n = (of_char c :: nat) in (9 \<le> n \<and> n \<le> 13) \<or> n = 32)"

definition example_trim :: "string \<Rightarrow> string" where
  "example_trim s = rev (dropWhile example_space (rev (dropWhile example_space s)))"

section \<open>Dates\<close>

text \<open>
  \<^verbatim>\<open>new Date(s)\<close> is the engine's: the models take it as an argument \<open>Date_parse\<close>,
  giving the time value in milliseconds, or \<open>None\<close> for an Invalid Date (time value
  NaN). \<^verbatim>\<open>a < b\<close> on two dates compares the time values, and is false when one of
  them is NaN.
\<close>

type_synonym time_value = "int option"

fun date_lt :: "time_value \<Rightarrow> time_value \<Rightarrow> bool" where
  "date_lt (Some a) (Some b) = (a < b)"
| "date_lt _ _ = False"

text \<open>The Date constructor on the date strings of the examples below.\<close>

definition example_Date_parse :: "string \<Rightarrow> time_value" where
  "example_Date_parse s =
     (if s = ''2024-01-01T00:00:00.000Z'' then Some 1704067200000
      else if s = ''2024-01-08T00:00:00.000Z'' then Some 1704672000000
      else if s = ''2030-01-01T00:00:00.000Z'' then Some 1893456000000
      else None)"

section \<open>The todo list (TodoList.tsx)\<close>

subsection \<open>The todo store as the component reads it\<close>

text \<open>
  The component reads \<^verbatim>\<open>id\<close> and \<^verbatim>\<open>status\<close> of a todo, and \<^verbatim>\<open>status\<close> of the
  connection object. The type declarations of the store are not among the sources: a
  status is any string, so that every value of the status enumerations is covered.
  \<^verbatim>\<open>wsConnection\<close> may be absent, \<^verbatim>\<open>error\<close> is a message or null.
\<close>

record todo =
  todo_id :: string
  todo_status :: string

record ws_connection =
  status :: string

record todo_store =
  todos :: "todo list"
  loading :: bool
  error :: "string option"
  hasMore :: bool
  wsConnection :: "ws_connection option"

text \<open>
  The calls the component makes into the store: \<^verbatim>\<open>fetchTodos(tripId, offset, limit)\<close> from
  the list, and from an item \<^verbatim>\<open>updateTodo(id, {status: st})\<close> and \<^verbatim>\<open>deleteTodo(id)\<close>.
\<close>

datatype fetch_call = FetchTodos string nat nat

datatype item_call =
    UpdateTodo string string
  | DeleteTodo string

text \<open>\<^verbatim>\<open>const connectionStatus = wsConnection?.status;\<close> (\<open>None\<close> is undefined).\<close>

definition connectionStatus :: "todo_store \<Rightarrow> string option" where
  "connectionStatus s = map_option status (wsConnection s)"

subsection \<open>Handlers\<close>

definition handleLoadMore :: "todo_store \<Rightarrow> string \<Rightarrow> fetch_call list" where
  "handleLoadMore s tripId =
     (if \<not> loading s \<and> hasMore s then [FetchTodos tripId (length (todos s)) 20] else [])"

text \<open>\<^verbatim>\<open>handleRetry\<close>; a rejection of the fetch goes to the console.\<close>

definition handleRetry :: "string \<Rightarrow> fetch_call list" where
  "handleRetry tripId = [FetchTodos tripId 0 20]"

text \<open>The effect that runs when the component mounts and when \<^verbatim>\<open>tripId\<close> changes.\<close>

definition initialLoad :: "string \<Rightarrow> fetch_call list" where
  "initialLoad tripId = [FetchTodos tripId 0 20]"

text \<open>
  \<^verbatim>\<open>renderItem\<close>: the props handed to \<^verbatim>\<open>TodoItem\<close>, but for the text colour; a callback
  is the calls it makes.
\<close>

record todo_item =
  item_todo :: todo
  onComplete :: "item_call list"
  onDelete :: "item_call list"
  disabled :: bool

definition renderItem :: "bool \<Rightarrow> todo \<Rightarrow> todo_item" where
  "renderItem ld item =
     \<lparr> item_todo = item,
       onComplete =
         [UpdateTodo (todo_id item)
            (if todo_status item = ''COMPLETE'' then ''INCOMPLETE'' else ''COMPLETE'')],
       onDelete = [DeleteTodo (todo_id item)],
       disabled = ld \<rparr>"

subsection \<open>The views\<close>

text \<open>
  The two conditional surfaces above the list, as the texts they show: the connection
  banner, then the connection error.
\<close>

definition connectionBanners :: "string option \<Rightarrow> string list" where
  "connectionBanners cs =
     (if cs = Some ''CONNECTING'' \<or> cs = Some ''RECONNECTING''
      then [if cs = Some ''CONNECTING'' then ''Connecting...'' else ''Reconnecting...'']
      else [])
     @ (if cs = Some ''ERROR''
        then [''Connection error. Please check your internet connection.'']
        else [])"

text \<open>
  What \<^verbatim>\<open>TodoListContent\<close> returns: the spinner, the error message with the Retry
  button (and what pressing it calls), the empty list with the Add Todo button, or the
  list: its banners, its items, what reaching the end calls, and the footer spinner.
\<close>

datatype todo_view =
    LoadingView
  | ErrorView string "fetch_call list"
  | EmptyView
  | ListView "string list" "todo_item list" "fetch_call list" bool

text \<open>\<^verbatim>\<open>if (error)\<close>: null and the empty string are falsy. \<^verbatim>\<open>{error}\<close> shows the text.\<close>

fun truthy_str :: "string option \<Rightarrow> bool" where
  "truthy_str None = False"
| "truthy_str (Some m) = (m \<noteq> [])"

fun text_of :: "string option \<Rightarrow> string" where
  "text_of None = []"
| "text_of (Some m) = m"

definition TodoListContent :: "todo_store \<Rightarrow> string \<Rightarrow> todo_view" where
  "TodoListContent s tripId =
     (if loading s \<and> length (todos s) = 0 then LoadingView
      else if truthy_str (error s) then ErrorView (text_of (error s)) (handleRetry tripId)
      else if length (todos s) = 0 then EmptyView
      else ListView (connectionBanners (connectionStatus s))
             (map (renderItem (loading s)) (todos s))
             (handleLoadMore s tripId)
             (loading s))"

text \<open>The banner texts a view shows.\<close>

fun banners_of :: "todo_view \<Rightarrow> string list" where
  "banners_of (ListView bs _ _ _) = bs"
| "banners_of _ = []"

text \<open>What pressing Retry calls, in a view that has the button.\<close>

fun retry_of :: "todo_view \<Rightarrow> fetch_call list option" where
  "retry_of (ErrorView _ calls) = Some calls"
| "retry_of _ = None"

subsection \<open>The store's fetch\<close>

text \<open>What the backend answers to a fetch: a rejection, or a page and whether more follow.\<close>

datatype fetch_response =
    FetchRejected string
  | FetchPage "todo list" bool

text \<open>
  Modelled from the spec: \<^verbatim>\<open>fetchTodos\<close> of the todo store
  (\<^verbatim>\<open>src/store/useTodoStore\<close> is not among the sources). The spec says of the store that it
  mirrors the remote todo list with its loading and error flags, and that the list is
  append-only across pages: a page that arrives is appended to the loaded todos; a
  rejected fetch leaves them as they are and records the message.
\<close>

definition fetchTodos ::
  "fetch_response \<Rightarrow> string \<Rightarrow> nat \<Rightarrow> nat \<Rightarrow> todo_store \<Rightarrow> todo_store" where
  "fetchTodos r tripId offset limit s =
     (case r of
        FetchPage page further \<Rightarrow>
          s\<lparr>todos := todos s @ page, loading := False, error := None, hasMore := further\<rparr>
      | FetchRejected m \<Rightarrow> s\<lparr>loading := False, error := Some m\<rparr>)"

text \<open>
  A load-more step: the list reaches its end, \<^verbatim>\<open>handleLoadMore\<close> runs, and the store
  serves the calls it made; \<open>r\<close> is the backend's answer.
\<close>

fun serve :: "fetch_response \<Rightarrow> fetch_call \<Rightarrow> todo_store \<Rightarrow> todo_store" where
  "serve r (FetchTodos tripId offset limit) s = fetchTodos r tripId offset limit s"

definition loadMore :: "fetch_response \<Rightarrow> todo_store \<Rightarrow> string \<Rightarrow> todo_store" where
  "loadMore r s tripId = fold (serve r) (handleLoadMore s tripId) s"

text \<open>Load-more steps in a row, one backend answer for each.\<close>

fun loadMores :: "fetch_response list \<Rightarrow> todo_store \<Rightarrow> string \<Rightarrow> todo_store" where
  "loadMores [] s tripId = s"
| "loadMores (r # rs) s tripId = loadMores rs (loadMore r s tripId) tripId"

subsection \<open>The connection status the subscription reports\<close>

text \<open>
  Modelled from the spec: the connection status and how it reaches the store (the
  declaration of the status type and \<^verbatim>\<open>src/store/useTodoStore\<close> are not among the
  sources). The spec says that the status is an enumerated value, that there are five
  values to mirror, of which it names CONNECTING, CONNECTED, RECONNECTING and ERROR, and
  that the status reflects the state the realtime subscription reports and is not
  computed by this codebase. The fifth value, which the spec does not name, is \<open>OTHER\<close>
  here, and its text is an argument.
\<close>

datatype connection_status = CONNECTING | CONNECTED | RECONNECTING | ERROR | OTHER

fun status_name :: "string \<Rightarrow> connection_status \<Rightarrow> string" where
  "status_name other CONNECTING = ''CONNECTING''"
| "status_name other CONNECTED = ''CONNECTED''"
| "status_name other RECONNECTING = ''RECONNECTING''"
| "status_name other ERROR = ''ERROR''"
| "status_name other OTHER = other"

text \<open>
  Modelled from the spec: the store on a status reported by the subscription. It mirrors
  the value: the status of the connection object becomes the reported one, and nothing
  else in the store changes.
\<close>

definition reportStatus :: "string \<Rightarrow> connection_status \<Rightarrow> todo_store \<Rightarrow> todo_store" where
  "reportStatus other v s = s\<lparr>wsConnection := Some \<lparr>status = status_name other v\<rparr>\<rparr>"

subsection \<open>Stores for the examples\<close>

definition two_todos :: "todo list" where
  "two_todos =
     [\<lparr>todo_id = ''a1'', todo_status = ''COMPLETE''\<rparr>,
      \<lparr>todo_id = ''b2'', todo_status = ''INCOMPLETE''\<rparr>]"

definition listed_store :: todo_store where
  "listed_store =
     \<lparr> todos = two_todos, loading = False, error = None, hasMore = True,
       wsConnection = Some \<lparr>status = ''RECONNECTING''\<rparr> \<rparr>"

definition connecting_empty_store :: todo_store where
  "connecting_empty_store =
     \<lparr> todos = [], loading = False, error = None, hasMore = False,
       wsConnection = Some \<lparr>status = ''CONNECTING''\<rparr> \<rparr>"

definition failed_store :: todo_store where
  "failed_store =
     \<lparr> todos = two_todos, loading = False, error = Some ''Network request failed'',
       hasMore = True, wsConnection = None \<rparr>"

section \<open>The trip form (CreateTripModal.tsx)\<close>

text \<open>
  A trip, with the fields the two screens read. \<^verbatim>\<open>status\<close> and \<^verbatim>\<open>destination\<close> may be
  absent (the trip list guards both); the form holds a string for each text field.
\<close>

record trip =
  trip_id :: string
  name :: string
  destination :: "string option"
  description :: string
  startDate :: string
  endDate :: string
  trip_status :: "string option"

datatype js_error = TypeError | Error string

text \<open>What the form does: alerts (title, message), its loading flag, the parent's callbacks.\<close>

datatype form_effect =
    Alert string string
  | SetLoading bool
  | OnSubmit trip
  | OnClose

text \<open>
  \<^verbatim>\<open>validateForm\<close> returns a boolean after showing at most one alert.
  \<^verbatim>\<open>trip.destination.trim()\<close> on an absent destination throws a TypeError. \<open>trim\<close> and
  \<open>Date_parse\<close> are the engine's.
\<close>

definition validateForm ::
  "(string \<Rightarrow> string) \<Rightarrow> (string \<Rightarrow> time_value) \<Rightarrow> trip
     \<Rightarrow> js_error + (form_effect list \<times> bool)" where
  "validateForm trim Date_parse t =
     (if trim (name t) = [] then
        Inr ([Alert ''Validation Error'' ''Please enter a trip name.''], False)
      else
        (case destination t of
           None \<Rightarrow> Inl TypeError
         | Some d \<Rightarrow>
             if trim d = [] then
               Inr ([Alert ''Validation Error'' ''Please enter a destination.''], False)
             else if date_lt (Date_parse (endDate t)) (Date_parse (startDate t)) then
               Inr ([Alert ''Validation Error'' ''End date must be after start date.''], False)
             else Inr ([], True)))"

text \<open>
  \<^verbatim>\<open>handleSubmit\<close>; \<open>r\<close> is how the promise of \<^verbatim>\<open>onSubmit(trip)\<close> settles. The result is
  the effects in order, and how the promise of \<^verbatim>\<open>handleSubmit\<close> itself settles.
\<close>

definition handleSubmit ::
  "(string \<Rightarrow> string) \<Rightarrow> (string \<Rightarrow> time_value) \<Rightarrow> js_error + unit \<Rightarrow> trip
     \<Rightarrow> form_effect list \<times> (js_error + unit)" where
  "handleSubmit trim Date_parse r t =
     (case validateForm trim Date_parse t of
        Inl e \<Rightarrow> ([], Inl e)
      | Inr (shown, ok) \<Rightarrow>
          if \<not> ok then (shown, Inr ())
          else
            (shown @ [SetLoading True, OnSubmit t]
               @ (case r of
                    Inr _ \<Rightarrow> [OnClose]
                  | Inl _ \<Rightarrow> [Alert ''Error'' ''Failed to create trip. Please try again.''])
               @ [SetLoading False],
             Inr ()))"

text \<open>A form left empty, and one filled in, for the examples.\<close>

definition empty_form :: trip where
  "empty_form =
     \<lparr> trip_id = [], name = [], destination = Some [], description = [],
       startDate = ''2024-01-01T00:00:00.000Z'', endDate = ''2024-01-01T00:00:00.000Z'',
       trip_status = None \<rparr>"

definition lisbon_form :: trip where
  "lisbon_form =
     \<lparr> trip_id = [], name = ''Lisbon'', destination = Some ''Portugal'', description = [],
       startDate = ''2024-01-01T00:00:00.000Z'', endDate = ''2024-01-08T00:00:00.000Z'',
       trip_status = None \<rparr>"

section \<open>The secure token manager (src/auth/secure-token-manager.ts)\<close>

text \<open>
  The secure store is the external library's. An operation of it runs on the library's
  own state \<open>'s\<close> and settles: rejected with an error, or fulfilled with a value.
\<close>

type_synonym ('s, 'a) async = "'s \<Rightarrow> (js_error + 'a) \<times> 's"

record ('s, 'a, 'b, 'c) secure_store =
  ss_setItem :: "string \<Rightarrow> string \<Rightarrow> ('s, 'a) async"
  ss_getItem :: "string \<Rightarrow> ('s, 'b) async"
  ss_removeItem :: "string \<Rightarrow> ('s, 'c) async"

text \<open>
  \<^verbatim>\<open>async f(...) { return p; }\<close>: the promise of \<open>f\<close> settles as \<open>p\<close> does, rejected with
  the same error or fulfilled with the same value.
\<close>

definition async_return :: "('s, 'a) async \<Rightarrow> ('s, 'a) async" where
  "async_return p st =
     (case p st of
        (Inl e, st') \<Rightarrow> (Inl e, st')
      | (Inr v, st') \<Rightarrow> (Inr v, st'))"

record ('s, 'a, 'b, 'c) BasicTokenManager =
  secureStore :: "('s, 'a, 'b, 'c) secure_store"

definition setItem ::
  "('s, 'a, 'b, 'c) BasicTokenManager \<Rightarrow> string \<Rightarrow> string \<Rightarrow> ('s, 'a) async" where
  "setItem this key val = async_return (ss_setItem (secureStore this) key val)"

definition getItem :: "('s, 'a, 'b, 'c) BasicTokenManager \<Rightarrow> string \<Rightarrow> ('s, 'b) async" where
  "getItem this key = async_return (ss_getItem (secureStore this) key)"

definition removeItem :: "('s, 'a, 'b, 'c) BasicTokenManager \<Rightarrow> string \<Rightarrow> ('s, 'c) async" where
  "removeItem this key = async_return (ss_removeItem (secureStore this) key)"

text \<open>
  A store for the examples: it keeps the pairs in a list, answers a read with the value
  or null, and refuses the empty key.
\<close>

definition list_store ::
  "((string \<times> string) list, unit, string option, unit) secure_store" where
  "list_store =
     \<lparr> ss_setItem = (\<lambda>k v st.
         if k = [] then (Inl (Error ''Invalid key''), st)
         else (Inr (), (k, v) # filter (\<lambda>p. fst p \<noteq> k) st)),
       ss_getItem = (\<lambda>k st.
         if k = [] then (Inl (Error ''Invalid key''), st) else (Inr (map_of st k), st)),
       ss_removeItem = (\<lambda>k st.
         if k = [] then (Inl (Error ''Invalid key''), st)
         else (Inr (), filter (\<lambda>p. fst p \<noteq> k) st)) \<rparr>"

definition example_token_manager ::
  "((string \<times> string) list, unit, string option, unit) BasicTokenManager" where
  "example_token_manager = \<lparr> secureStore = list_store \<rparr>"

section \<open>The auth store (src/store/useAuthStore.ts)\<close>

text \<open>
  The session the backend client hands out, with the fields the store reads. The user's
  id is what \<^verbatim>\<open>parseInt\<close> makes of the id string; \<^verbatim>\<open>parseInt\<close> is the engine's and an
  argument of the model, its numbers are of type \<open>'n\<close>.
\<close>

record user_metadata =
  md_username :: "string option"
  md_firstName :: "string option"
  md_lastName :: "string option"
  md_avatar_url :: "string option"

record session_user =
  su_id :: string
  su_email :: "string option"
  su_user_metadata :: "user_metadata option"

record session =
  sess_user :: "session_user option"
  access_token :: string

record 'n User =
  user_id :: 'n
  email :: string
  username :: string
  firstName :: "string option"
  lastName :: "string option"
  profilePicture :: "string option"

record 'n AuthState =
  user :: "'n User option"
  token :: "string option"
  loading_auth :: bool
  error_auth :: "string option"
  isInitialized :: bool
  isFirstTime :: bool
  isVerifying :: bool

text \<open>The store as \<^verbatim>\<open>create\<close> builds it.\<close>

definition initial_AuthState :: "'n AuthState" where
  "initial_AuthState =
     \<lparr> user = None, token = None, loading_auth = False, error_auth = None,
       isInitialized = False, isFirstTime = False, isVerifying = False \<rparr>"

text \<open>\<^verbatim>\<open>a ?? b\<close> and \<^verbatim>\<open>m?.f\<close>.\<close>

fun nullish_or :: "'a option \<Rightarrow> 'a \<Rightarrow> 'a" where
  "nullish_or None d = d"
| "nullish_or (Some v) d = v"

fun opt_field :: "'r option \<Rightarrow> ('r \<Rightarrow> 'a option) \<Rightarrow> 'a option" where
  "opt_field None f = None"
| "opt_field (Some r) f = f r"

text \<open>The user object that \<^verbatim>\<open>initialize\<close> builds from the session's user.\<close>

definition build_user :: "(string \<Rightarrow> 'n) \<Rightarrow> session_user \<Rightarrow> 'n User" where
  "build_user parseInt u =
     \<lparr> user_id = parseInt (su_id u),
       email = nullish_or (su_email u) [],
       username = nullish_or (opt_field (su_user_metadata u) md_username) [],
       firstName = opt_field (su_user_metadata u) md_firstName,
       lastName = opt_field (su_user_metadata u) md_lastName,
       profilePicture = opt_field (su_user_metadata u) md_avatar_url \<rparr>"

text \<open>
  What \<^verbatim>\<open>supabase.auth.getSession()\<close> does: it throws, or returns a session (or null)
  and an error (or null). \<^verbatim>\<open>recoverSession\<close> catches everything and logs it; the result
  is the console lines and the session, or null.
\<close>

datatype getSession_result =
    GetSessionThrows js_error
  | GetSessionReturns "session option" "js_error option"

fun recoverSession :: "getSession_result \<Rightarrow> string list \<times> session option" where
  "recoverSession (GetSessionThrows e) = ([''[AuthStore] Session recovery failed:''], None)"
| "recoverSession (GetSessionReturns sess (Some e)) =
     ([''[AuthStore] Session recovery failed:''], None)"
| "recoverSession (GetSessionReturns (Some sess) None) = ([], Some sess)"
| "recoverSession (GetSessionReturns None None) = ([], None)"

text \<open>
  \<^verbatim>\<open>initialize\<close>: the console lines and the store afterwards. Nothing in its \<^verbatim>\<open>try\<close>
  block throws (\<^verbatim>\<open>recoverSession\<close> has caught what could), so its \<^verbatim>\<open>catch\<close> block
  never runs and has no branch here.
\<close>

definition initialize ::
  "(string \<Rightarrow> 'n) \<Rightarrow> getSession_result \<Rightarrow> 'n AuthState \<Rightarrow> string list \<times> 'n AuthState" where
  "initialize parseInt r state =
     (if loading_auth state \<or> isInitialized state then ([], state)
      else
        (let s1 = state\<lparr>loading_auth := True\<rparr>;
             (logs, sess) = recoverSession r;
             no_session =
               s1\<lparr>user := None, token := None,
                  isInitialized := True, loading_auth := False, error_auth := None\<rparr>
         in case sess of
              None \<Rightarrow> (logs, no_session)
            | Some ss \<Rightarrow>
                (case sess_user ss of
                   None \<Rightarrow> (logs, no_session)
                 | Some u \<Rightarrow>
                     (logs,
                      s1\<lparr>user := Some (build_user parseInt u),
                         token := Some (access_token ss),
                         isInitialized := True, loading_auth := False,
                         error_auth := None\<rparr>))))"

text \<open>
  \<^verbatim>\<open>logout\<close>: \<^verbatim>\<open>supabase.auth.signOut()\<close> throws, or returns an error or null; an error
  is thrown, caught and logged, and the \<^verbatim>\<open>finally\<close> block resets the store.
\<close>

datatype signOut_result =
    SignOutThrows js_error
  | SignOutReturns "js_error option"

fun logout_logs :: "signOut_result \<Rightarrow> string list" where
  "logout_logs (SignOutThrows e) = [''[AuthStore] Logout error:'']"
| "logout_logs (SignOutReturns (Some e)) = [''[AuthStore] Logout error:'']"
| "logout_logs (SignOutReturns None) = []"

definition logout :: "signOut_result \<Rightarrow> 'n AuthState \<Rightarrow> string list \<times> 'n AuthState" where
  "logout r state =
     (let s1 = state\<lparr>loading_auth := True\<rparr>
      in (logout_logs r,
          s1\<lparr>user := None, token := None, loading_auth := False, error_auth := None,
             isVerifying := False\<rparr>))"

text \<open>A signed-in store for the examples.\<close>

definition signed_in :: "int AuthState" where
  "signed_in =
     \<lparr> user = Some \<lparr> user_id = 7, email = ''ada@example.org'', username = ''ada'',
                     firstName = Some ''Ada'', lastName = None, profilePicture = None \<rparr>,
       token = Some ''jwt'', loading_auth = False, error_auth = Some ''stale'',
       isInitialized = True, isFirstTime = False, isVerifying = True \<rparr>"

section \<open>The trip list (trips.tsx)\<close>

datatype tab = Active | Recent | Cancelled

text \<open>The first pass: upper case, and PLANNED becomes PLANNING.\<close>

definition normalizeStatus :: "(string \<Rightarrow> string) \<Rightarrow> string option \<Rightarrow> string option" where
  "normalizeStatus toUpperCase st =
     (let normalizedStatus = map_option toUpperCase st
      in if normalizedStatus = Some ''PLANNED'' then Some ''PLANNING'' else normalizedStatus)"

text \<open>
  The predicate of the search filter, on the lower-cased query. \<^verbatim>\<open>a && b\<close> is falsy for
  an absent and for an empty destination.
\<close>

definition searchFilter :: "(string \<Rightarrow> string) \<Rightarrow> string \<Rightarrow> trip \<Rightarrow> bool" where
  "searchFilter toLowerCase query t =
     (includes_str (toLowerCase (name t)) query
      \<or> (case destination t of
            None \<Rightarrow> False
          | Some d \<Rightarrow> d \<noteq> [] \<and> includes_str (toLowerCase d) query))"

text \<open>
  \<^verbatim>\<open>filteredTrips\<close>; \<open>toUpperCase\<close>, \<open>toLowerCase\<close> and \<open>Date_parse\<close> are the engine's,
  \<open>now\<close> is the time value of \<^verbatim>\<open>new Date()\<close>. The tab is one of the three of the state's
  type, so the \<^verbatim>\<open>default\<close> branch of the switch is never taken.
\<close>

definition filteredTrips ::
  "(string \<Rightarrow> string) \<Rightarrow> (string \<Rightarrow> string) \<Rightarrow> (string \<Rightarrow> time_value) \<Rightarrow> int
     \<Rightarrow> trip list \<Rightarrow> tab \<Rightarrow> string \<Rightarrow> trip list" where
  "filteredTrips toUpperCase toLowerCase Date_parse now trips activeTab searchQuery =
     (let filtered =
            map (\<lambda>t. t\<lparr>trip_status := normalizeStatus toUpperCase (trip_status t)\<rparr>) trips;
          filtered =
            (if searchQuery \<noteq> []
             then filter (searchFilter toLowerCase (toLowerCase searchQuery)) filtered
             else filtered);
          filtered = map (\<lambda>t. t\<lparr>trip_status := map_option toUpperCase (trip_status t)\<rparr>) filtered
      in case activeTab of
           Active \<Rightarrow>
             filter (\<lambda>t. trip_status t = Some ''ACTIVE'' \<or> trip_status t = Some ''PLANNING'')
               filtered
         | Recent \<Rightarrow>
             filter (\<lambda>t. trip_status t = Some ''COMPLETED''
                          \<or> date_lt (Date_parse (endDate t)) (Some now))
               filtered
         | Cancelled \<Rightarrow> filter (\<lambda>t. trip_status t = Some ''CANCELLED'') filtered)"

subsection \<open>The tabs, as described\<close>

text \<open>
  The description of the filter, to compare \<^const>\<open>filteredTrips\<close> with. A trip matches the
  search when the query is empty or occurs, case ignored, in its name or destination. Its
  normalized status is its status after the two passes of the filter: upper case with
  PLANNED turned into PLANNING, and upper case again. It belongs to a tab by its
  normalized status, and to Recent also by an end date in the past.
\<close>

definition search_matching :: "(string \<Rightarrow> string) \<Rightarrow> string \<Rightarrow> trip \<Rightarrow> bool" where
  "search_matching toLowerCase searchQuery t =
     (searchQuery = [] \<or> searchFilter toLowerCase (toLowerCase searchQuery) t)"

definition normalized_status :: "(string \<Rightarrow> string) \<Rightarrow> trip \<Rightarrow> string option" where
  "normalized_status toUpperCase t =
     map_option toUpperCase (normalizeStatus toUpperCase (trip_status t))"

fun in_tab ::
  "(string \<Rightarrow> string) \<Rightarrow> (string \<Rightarrow> time_value) \<Rightarrow> int \<Rightarrow> tab \<Rightarrow> trip \<Rightarrow> bool" where
  "in_tab toUpperCase Date_parse now Active t =
     (normalized_status toUpperCase t = Some ''ACTIVE''
      \<or> normalized_status toUpperCase t = Some ''PLANNING'')"
| "in_tab toUpperCase Date_parse now Cancelled t =
     (normalized_status toUpperCase t = Some ''CANCELLED'')"
| "in_tab toUpperCase Date_parse now Recent t =
     (normalized_status toUpperCase t = Some ''COMPLETED''
      \<or> date_lt (Date_parse (endDate t)) (Some now))"

definition normalized :: "(string \<Rightarrow> string) \<Rightarrow> trip \<Rightarrow> trip" where
  "normalized toUpperCase t = t\<lparr>trip_status := normalized_status toUpperCase t\<rparr>"

text \<open>Trips for the examples; the clock of the examples stands at 2025-01-01.\<close>

definition example_now :: int where
  "example_now = 1735689600000"

definition alps_trip :: trip where
  "alps_trip =
     \<lparr> trip_id = ''t1'', name = ''Alps'', destination = Some ''Chamonix'', description = [],
       startDate = ''2024-01-01T00:00:00.000Z'', endDate = ''2024-01-08T00:00:00.000Z'',
       trip_status = Some ''active'' \<rparr>"

definition rome_trip :: trip where
  "rome_trip =
     \<lparr> trip_id = ''t2'', name = ''Rome'', destination = None, description = [],
       startDate = ''2024-01-01T00:00:00.000Z'', endDate = ''2030-01-01T00:00:00.000Z'',
       trip_status = Some ''Planned'' \<rparr>"

definition oslo_trip :: trip where
  "oslo_trip =
     \<lparr> trip_id = ''t3'', name = ''Oslo'', destination = Some ''Norway'', description = [],
       startDate = ''2024-01-01T00:00:00.000Z'', endDate = ''2030-01-01T00:00:00.000Z'',
       trip_status = Some ''CANCELLED'' \<rparr>"

chapter \<open>Properties\<close>

section \<open>Pagination of the todo list\<close>

lemma fetchTodos_prefix: "prefix (todos s) (todos (fetchTodos r t off lim s))"
  by (cases r) (simp_all add: fetchTodos_def)

lemma loadMore_prefix: "prefix (todos s) (todos (loadMore r s tripId))"
  by (simp add: loadMore_def handleLoadMore_def fetchTodos_prefix)

lemma loadMores_prefix: "prefix (todos s) (todos (loadMores rs s tripId))"
proof (induction rs arbitrary: s)
  case Nil
  show ?case by simp
next
  case (Cons r rs)
  have "prefix (todos s) (todos (loadMore r s tripId))"
    by (rule loadMore_prefix)
  also have "prefix (todos (loadMore r s tripId))
      (todos (loadMores rs (loadMore r s tripId) tripId))"
    by (rule Cons.IH)
  finally show ?case by simp
qed

text \<open>
  Claim C1. Load-more asks for the next page at the offset that is the number of loaded
  todos, with limit 20, and only when the store is not loading and reports more pages;
  otherwise it calls nothing and the store stays as it is. After a load-more step, and
  after any number of them, the todos loaded before are a prefix of the list: they stay in
  place and new items come after them. (The store's fetch is the one described by the
  spec.)
\<close>

theorem load_more_append_only:
  "(\<not> loading s \<and> hasMore s \<longrightarrow>
      handleLoadMore s tripId = [FetchTodos tripId (length (todos s)) 20])
   \<and> (loading s \<or> \<not> hasMore s \<longrightarrow> handleLoadMore s tripId = [] \<and> loadMore r s tripId = s)
   \<and> prefix (todos s) (todos (loadMore r s tripId))
   \<and> prefix (todos s) (todos (loadMores rs s tripId))"
proof (intro conjI impI)
  assume "\<not> loading s \<and> hasMore s"
  then show "handleLoadMore s tripId = [FetchTodos tripId (length (todos s)) 20]"
    by (simp add: handleLoadMore_def)
next
  assume idle: "loading s \<or> \<not> hasMore s"
  then show "handleLoadMore s tripId = []"
    by (auto simp: handleLoadMore_def)
  then show "loadMore r s tripId = s"
    by (simp add: loadMore_def)
next
  show "prefix (todos s) (todos (loadMore r s tripId))"
    by (rule loadMore_prefix)
  show "prefix (todos s) (todos (loadMores rs s tripId))"
    by (rule loadMores_prefix)
qed

theorem load_more_append_only_witness:
  "handleLoadMore listed_store ''trip-1'' = [FetchTodos ''trip-1'' 2 20]
   \<and> todos (loadMore (FetchPage [\<lparr>todo_id = ''c3'', todo_status = ''INCOMPLETE''\<rparr>] False)
        listed_store ''trip-1'')
     = two_todos @ [\<lparr>todo_id = ''c3'', todo_status = ''INCOMPLETE''\<rparr>]
   \<and> prefix (todos listed_store)
       (todos (loadMore (FetchPage [\<lparr>todo_id = ''c3'', todo_status = ''INCOMPLETE''\<rparr>] False)
          listed_store ''trip-1''))
   \<and> loadMore (FetchPage [] True) connecting_empty_store ''trip-1'' = connecting_empty_store"
  using load_more_append_only [of listed_store "''trip-1''"
      "FetchPage [\<lparr>todo_id = ''c3'', todo_status = ''INCOMPLETE''\<rparr>] False" "[]"]
    load_more_append_only [of connecting_empty_store "''trip-1''" "FetchPage [] True" "[]"]
  by (simp add: listed_store_def connecting_empty_store_def two_todos_def loadMore_def
      handleLoadMore_def fetchTodos_def)

section \<open>The connection banner\<close>

lemma connectionBanners_cases:
  "connectionBanners cs =
     (if cs = Some ''CONNECTING'' then [''Connecting...'']
      else if cs = Some ''RECONNECTING'' then [''Reconnecting...'']
      else if cs = Some ''ERROR''
        then [''Connection error. Please check your internet connection.'']
      else [])"
  by (simp add: connectionBanners_def)

lemma banners_of_list_view:
  assumes "\<not> truthy_str (error s)" and "todos s \<noteq> []"
  shows "banners_of (TodoListContent s tripId) = connectionBanners (connectionStatus s)"
  using assms by (simp add: TodoListContent_def)

lemma banners_of_other_views:
  assumes "truthy_str (error s) \<or> todos s = []"
  shows "banners_of (TodoListContent s tripId) = []"
  using assms by (auto simp: TodoListContent_def)

text \<open>
  Claim C2, as stated, fails: the banner is not a function of the status alone. With no
  todo loaded and the status CONNECTING, the component returns the empty-list view, which
  has no banner.
\<close>

theorem banner_counterexample:
  "connectionStatus connecting_empty_store = Some ''CONNECTING''
   \<and> TodoListContent connecting_empty_store ''trip-1'' = EmptyView
   \<and> banners_of (TodoListContent connecting_empty_store ''trip-1'') = []"
  by (simp add: connecting_empty_store_def connectionStatus_def TodoListContent_def)

text \<open>
  Claim C2, amended. When the list itself is rendered (the store has no error message and
  at least one todo), the banner is a function of the status: it shows "Connecting..."
  exactly when the status is CONNECTING, "Reconnecting..." exactly when it is
  RECONNECTING, the connection-error message exactly when it is ERROR, and nothing for
  every other status and for an absent connection object. In the other views (spinner,
  error, empty list) no banner is shown, whatever the status.
\<close>

theorem banner_of_status:
  "(\<not> truthy_str (error s) \<and> todos s \<noteq> [] \<longrightarrow>
      (banners_of (TodoListContent s tripId) = [''Connecting...'']
         \<longleftrightarrow> connectionStatus s = Some ''CONNECTING'')
    \<and> (banners_of (TodoListContent s tripId) = [''Reconnecting...'']
         \<longleftrightarrow> connectionStatus s = Some ''RECONNECTING'')
    \<and> (banners_of (TodoListContent s tripId)
           = [''Connection error. Please check your internet connection.'']
         \<longleftrightarrow> connectionStatus s = Some ''ERROR'')
    \<and> (banners_of (TodoListContent s tripId) = []
         \<longleftrightarrow> connectionStatus s \<noteq> Some ''CONNECTING''
             \<and> connectionStatus s \<noteq> Some ''RECONNECTING''
             \<and> connectionStatus s \<noteq> Some ''ERROR''))
   \<and> (truthy_str (error s) \<or> todos s = [] \<longrightarrow> banners_of (TodoListContent s tripId) = [])"
proof (intro conjI impI)
  assume shown: "\<not> truthy_str (error s) \<and> todos s \<noteq> []"
  then have b: "banners_of (TodoListContent s tripId) = connectionBanners (connectionStatus s)"
    by (simp add: banners_of_list_view)
  show "banners_of (TodoListContent s tripId) = [''Connecting...'']
      \<longleftrightarrow> connectionStatus s = Some ''CONNECTING''"
    unfolding b connectionBanners_cases by simp
  show "banners_of (TodoListContent s tripId) = [''Reconnecting...'']
      \<longleftrightarrow> connectionStatus s = Some ''RECONNECTING''"
    unfolding b connectionBanners_cases by simp
  show "banners_of (TodoListContent s tripId)
        = [''Connection error. Please check your internet connection.'']
      \<longleftrightarrow> connectionStatus s = Some ''ERROR''"
    unfolding b connectionBanners_cases by simp
  show "banners_of (TodoListContent s tripId) = []
      \<longleftrightarrow> connectionStatus s \<noteq> Some ''CONNECTING''
          \<and> connectionStatus s \<noteq> Some ''RECONNECTING''
          \<and> connectionStatus s \<noteq> Some ''ERROR''"
    unfolding b connectionBanners_cases by simp
next
  assume "truthy_str (error s) \<or> todos s = []"
  then show "banners_of (TodoListContent s tripId) = []"
    by (rule banners_of_other_views)
qed


theorem banner_of_status_witness:
  "banners_of (TodoListContent listed_store ''trip-1'') = [''Reconnecting...'']
   \<and> connectionStatus listed_store = Some ''RECONNECTING''
   \<and> banners_of (TodoListContent failed_store ''trip-1'') = []
   \<and> truthy_str (error failed_store)"
proof -
  have listed: "\<not> truthy_str (error listed_store) \<and> todos listed_store \<noteq> []"
    by (simp add: listed_store_def two_todos_def)
  have status: "connectionStatus listed_store = Some ''RECONNECTING''"
    by (simp add: listed_store_def connectionStatus_def)
  have failed: "truthy_str (error failed_store)"
    by (simp add: failed_store_def)
  from banner_of_status [of listed_store "''trip-1''"] listed status
  have "banners_of (TodoListContent listed_store ''trip-1'') = [''Reconnecting...'']"
    by blast
  moreover from banner_of_status [of failed_store "''trip-1''"] failed
  have "banners_of (TodoListContent failed_store ''trip-1'') = []"
    by blast
  ultimately show ?thesis
    using status failed by blast
qed

section \<open>The connection status\<close>

lemma connection_status_UNIV:
  "(UNIV :: connection_status set) = {CONNECTING, CONNECTED, RECONNECTING, ERROR, OTHER}"
proof
  show "(UNIV :: connection_status set) \<subseteq> {CONNECTING, CONNECTED, RECONNECTING, ERROR, OTHER}"
  proof
    fix v :: connection_status
    show "v \<in> {CONNECTING, CONNECTED, RECONNECTING, ERROR, OTHER}"
      by (cases v) simp_all
  qed
  show "{CONNECTING, CONNECTED, RECONNECTING, ERROR, OTHER} \<subseteq> (UNIV :: connection_status set)"
    by simp
qed

lemma five_statuses: "card (UNIV :: connection_status set) = 5"
  unfolding connection_status_UNIV by simp

lemma connectionStatus_reportStatus:
  "connectionStatus (reportStatus other v s) = Some (status_name other v)"
  by (simp add: connectionStatus_def reportStatus_def)

lemma connectionStatus_fetchTodos:
  "connectionStatus (fetchTodos r tripId offset limit s) = connectionStatus s"
  by (cases r) (simp_all add: connectionStatus_def fetchTodos_def)

lemma reportStatus_other_fields:
  "todos (reportStatus other v s) = todos s"
  "loading (reportStatus other v s) = loading s"
  "error (reportStatus other v s) = error s"
  "hasMore (reportStatus other v s) = hasMore s"
  by (simp_all add: reportStatus_def)

text \<open>
  Claim C3. The status the list uses is the \<^verbatim>\<open>status\<close> field of the store's connection
  object, for every state of the store, and undefined when the object is absent. When
  the subscription reports one of the five status values, the store's connection object
  takes it, and the list uses and displays that value. Nothing here computes a status: the
  store's fetch, the only call the list's handlers make, and a change of any other field
  of the store leave the status as it is. (The status values and the store's mirror of
  the report are the ones described by the spec.)
\<close>

theorem connectionStatus_mirrors_wsConnection:
  "connectionStatus s = (case wsConnection s of None \<Rightarrow> None | Some c \<Rightarrow> Some (status c))
   \<and> connectionStatus (reportStatus other v s) = Some (status_name other v)
   \<and> connectionStatus (fetchTodos r tripId offset limit s) = connectionStatus s
   \<and> connectionStatus (s\<lparr>todos := ts, loading := ld, error := er, hasMore := hm\<rparr>)
       = connectionStatus s
   \<and> (\<not> truthy_str (error s) \<and> todos s \<noteq> [] \<longrightarrow>
        banners_of (TodoListContent (reportStatus other v s) tripId)
          = connectionBanners (Some (status_name other v)))
   \<and> card (UNIV :: connection_status set) = 5"
proof (intro conjI impI)
  show "connectionStatus s = (case wsConnection s of None \<Rightarrow> None | Some c \<Rightarrow> Some (status c))"
    by (cases "wsConnection s") (simp_all add: connectionStatus_def)
  show "connectionStatus (reportStatus other v s) = Some (status_name other v)"
    by (rule connectionStatus_reportStatus)
  show "connectionStatus (fetchTodos r tripId offset limit s) = connectionStatus s"
    by (rule connectionStatus_fetchTodos)
  show "connectionStatus (s\<lparr>todos := ts, loading := ld, error := er, hasMore := hm\<rparr>)
      = connectionStatus s"
    by (simp add: connectionStatus_def)
  show "card (UNIV :: connection_status set) = 5"
    by (rule five_statuses)
next
  assume "\<not> truthy_str (error s) \<and> todos s \<noteq> []"
  then have "\<not> truthy_str (error (reportStatus other v s))"
      and "todos (reportStatus other v s) \<noteq> []"
    by (simp_all add: reportStatus_other_fields)
  then have "banners_of (TodoListContent (reportStatus other v s) tripId)
      = connectionBanners (connectionStatus (reportStatus other v s))"
    by (rule banners_of_list_view)
  then show "banners_of (TodoListContent (reportStatus other v s) tripId)
      = connectionBanners (Some (status_name other v))"
    by (simp add: connectionStatus_reportStatus)
qed

theorem connectionStatus_mirrors_wsConnection_witness:
  "banners_of (TodoListContent (reportStatus ''OTHER'' CONNECTING listed_store) ''trip-1'')
     = [''Connecting...'']
   \<and> banners_of (TodoListContent (reportStatus ''OTHER'' CONNECTED listed_store) ''trip-1'') = []
   \<and> connectionStatus (reportStatus ''OTHER'' ERROR listed_store) = Some ''ERROR''
   \<and> connectionStatus listed_store = Some ''RECONNECTING''"
proof -
  have listed: "\<not> truthy_str (error listed_store) \<and> todos listed_store \<noteq> []"
    by (simp add: listed_store_def two_todos_def)
  from connectionStatus_mirrors_wsConnection
      [where s = listed_store and other = "''OTHER''" and v = CONNECTING and tripId = "''trip-1''"]
    listed
  have "banners_of (TodoListContent (reportStatus ''OTHER'' CONNECTING listed_store) ''trip-1'')
      = connectionBanners (Some (status_name ''OTHER'' CONNECTING))"
    by blast
  then have a: "banners_of (TodoListContent (reportStatus ''OTHER'' CONNECTING listed_store)
      ''trip-1'') = [''Connecting...'']"
    by (simp add: connectionBanners_def)
  from connectionStatus_mirrors_wsConnection
      [where s = listed_store and other = "''OTHER''" and v = CONNECTED and tripId = "''trip-1''"]
    listed
  have "banners_of (TodoListContent (reportStatus ''OTHER'' CONNECTED listed_store) ''trip-1'')
      = connectionBanners (Some (status_name ''OTHER'' CONNECTED))"
    by blast
  then have b: "banners_of (TodoListContent (reportStatus ''OTHER'' CONNECTED listed_store)
      ''trip-1'') = []"
    by (simp add: connectionBanners_def)
  from connectionStatus_mirrors_wsConnection
      [where s = listed_store and other = "''OTHER''" and v = ERROR]
  have c: "connectionStatus (reportStatus ''OTHER'' ERROR listed_store) = Some ''ERROR''"
    by simp
  from connectionStatus_mirrors_wsConnection [where s = listed_store]
  have d: "connectionStatus listed_store = Some ''RECONNECTING''"
    by (simp add: listed_store_def)
  from a b c d show ?thesis by blast
qed

section \<open>Retry\<close>

text \<open>
  Claim C4. Retry fetches from the beginning: \<^verbatim>\<open>handleRetry\<close> calls the fetch of the trip
  with offset 0 and limit 20, whatever the number of loaded todos. The error view, shown
  when the store has an error message (and is not loading an empty list), carries this
  call on its Retry button, and no view carries another call there.
\<close>

theorem retry_restarts_from_beginning:
  "handleRetry tripId = [FetchTodos tripId 0 20]
   \<and> (truthy_str (error s) \<and> \<not> (loading s \<and> todos s = []) \<longrightarrow>
        TodoListContent s tripId = ErrorView (text_of (error s)) [FetchTodos tripId 0 20])
   \<and> (\<forall>calls. retry_of (TodoListContent s tripId) = Some calls \<longrightarrow>
        calls = [FetchTodos tripId 0 20])"
proof (intro conjI impI allI)
  show r: "handleRetry tripId = [FetchTodos tripId 0 20]"
    by (simp add: handleRetry_def)
  show "TodoListContent s tripId = ErrorView (text_of (error s)) [FetchTodos tripId 0 20]"
    if "truthy_str (error s) \<and> \<not> (loading s \<and> todos s = [])"
    using that by (simp add: TodoListContent_def r)
  show "calls = [FetchTodos tripId 0 20]"
    if "retry_of (TodoListContent s tripId) = Some calls" for calls
    using that by (simp add: TodoListContent_def r split: if_splits)
qed

theorem retry_restarts_from_beginning_witness:
  "TodoListContent failed_store ''trip-1''
     = ErrorView ''Network request failed'' [FetchTodos ''trip-1'' 0 20]
   \<and> retry_of (TodoListContent failed_store ''trip-1'') = Some [FetchTodos ''trip-1'' 0 20]
   \<and> length (todos failed_store) = 2"
proof -
  have shown: "truthy_str (error failed_store)
      \<and> \<not> (loading failed_store \<and> todos failed_store = [])"
    by (simp add: failed_store_def)
  from retry_restarts_from_beginning [of "''trip-1''" failed_store] shown
  have "TodoListContent failed_store ''trip-1''
      = ErrorView (text_of (error failed_store)) [FetchTodos ''trip-1'' 0 20]"
    by blast
  then show ?thesis
    by (simp add: failed_store_def two_todos_def)
qed

section \<open>The actions of a todo item\<close>

text \<open>
  Claim C6. The complete action of an item asks the store to update that todo to
  INCOMPLETE if its status is COMPLETE and to COMPLETE otherwise; the delete action asks
  the store to delete the todo of that id.
\<close>

theorem item_actions:
  "(todo_status item = ''COMPLETE'' \<longrightarrow>
      onComplete (renderItem ld item) = [UpdateTodo (todo_id item) ''INCOMPLETE''])
   \<and> (todo_status item \<noteq> ''COMPLETE'' \<longrightarrow>
      onComplete (renderItem ld item) = [UpdateTodo (todo_id item) ''COMPLETE''])
   \<and> onDelete (renderItem ld item) = [DeleteTodo (todo_id item)]"
  by (simp add: renderItem_def)



theorem item_actions_witness:
  "onComplete (renderItem False \<lparr>todo_id = ''a1'', todo_status = ''COMPLETE''\<rparr>)
     = [UpdateTodo ''a1'' ''INCOMPLETE'']
   \<and> onComplete (renderItem False \<lparr>todo_id = ''b2'', todo_status = ''INCOMPLETE''\<rparr>)
     = [UpdateTodo ''b2'' ''COMPLETE'']
   \<and> onDelete (renderItem False \<lparr>todo_id = ''b2'', todo_status = ''INCOMPLETE''\<rparr>)
     = [DeleteTodo ''b2'']"
proof -
  have completed: "todo_status \<lparr>todo_id = ''a1'', todo_status = ''COMPLETE''\<rparr> = ''COMPLETE''"
    by simp
  have pending: "todo_status \<lparr>todo_id = ''b2'', todo_status = ''INCOMPLETE''\<rparr> \<noteq> ''COMPLETE''"
    by simp
  from item_actions [of "\<lparr>todo_id = ''a1'', todo_status = ''COMPLETE''\<rparr>" False] completed
  have "onComplete (renderItem False \<lparr>todo_id = ''a1'', todo_status = ''COMPLETE''\<rparr>)
      = [UpdateTodo (todo_id \<lparr>todo_id = ''a1'', todo_status = ''COMPLETE''\<rparr>) ''INCOMPLETE'']"
    by blast
  moreover
  from item_actions [of "\<lparr>todo_id = ''b2'', todo_status = ''INCOMPLETE''\<rparr>" False] pending
  have "onComplete (renderItem False \<lparr>todo_id = ''b2'', todo_status = ''INCOMPLETE''\<rparr>)
        = [UpdateTodo (todo_id \<lparr>todo_id = ''b2'', todo_status = ''INCOMPLETE''\<rparr>) ''COMPLETE'']
      \<and> onDelete (renderItem False \<lparr>todo_id = ''b2'', todo_status = ''INCOMPLETE''\<rparr>)
        = [DeleteTodo (todo_id \<lparr>todo_id = ''b2'', todo_status = ''INCOMPLETE''\<rparr>)]"
    by blast
  ultimately show ?thesis
    by simp
qed

section \<open>Validation in the trip form\<close>

lemma handleSubmit_no_name:
  "trim (name t) = [] \<Longrightarrow>
   handleSubmit trim P r t = ([Alert ''Validation Error'' ''Please enter a trip name.''], Inr ())"
  by (simp add: handleSubmit_def validateForm_def)

lemma handleSubmit_no_destination:
  "trim (name t) \<noteq> [] \<Longrightarrow> destination t = Some d \<Longrightarrow> trim d = [] \<Longrightarrow>
   handleSubmit trim P r t = ([Alert ''Validation Error'' ''Please enter a destination.''], Inr ())"
  by (simp add: handleSubmit_def validateForm_def)

lemma handleSubmit_dates:
  "trim (name t) \<noteq> [] \<Longrightarrow> destination t = Some d \<Longrightarrow> trim d \<noteq> [] \<Longrightarrow>
   date_lt (P (endDate t)) (P (startDate t)) \<Longrightarrow>
   handleSubmit trim P r t
     = ([Alert ''Validation Error'' ''End date must be after start date.''], Inr ())"
  by (simp add: handleSubmit_def validateForm_def)

lemma handleSubmit_absent_destination:
  "trim (name t) \<noteq> [] \<Longrightarrow> destination t = None \<Longrightarrow> handleSubmit trim P r t = ([], Inl TypeError)"
  by (simp add: handleSubmit_def validateForm_def)

lemma handleSubmit_valid:
  "trim (name t) \<noteq> [] \<Longrightarrow> destination t = Some d \<Longrightarrow> trim d \<noteq> [] \<Longrightarrow>
   \<not> date_lt (P (endDate t)) (P (startDate t)) \<Longrightarrow>
   handleSubmit trim P r t
     = ([SetLoading True, OnSubmit t]
          @ (case r of
               Inr _ \<Rightarrow> [OnClose]
             | Inl _ \<Rightarrow> [Alert ''Error'' ''Failed to create trip. Please try again.''])
          @ [SetLoading False],
        Inr ())"
  by (simp add: handleSubmit_def validateForm_def)

lemma handleSubmit_calls_onSubmit_iff:
  "OnSubmit t \<in> set (fst (handleSubmit trim P r t)) \<longleftrightarrow>
     trim (name t) \<noteq> [] \<and> (\<exists>d. destination t = Some d \<and> trim d \<noteq> [])
     \<and> \<not> date_lt (P (endDate t)) (P (startDate t))"
proof (cases "trim (name t) = []")
  case True
  then show ?thesis by (simp add: handleSubmit_no_name)
next
  case named: False
  show ?thesis
  proof (cases "destination t")
    case None
    with named show ?thesis by (simp add: handleSubmit_absent_destination)
  next
    case (Some d)
    show ?thesis
    proof (cases "trim d = []")
      case True
      with named Some show ?thesis by (simp add: handleSubmit_no_destination)
    next
      case placed: False
      show ?thesis
      proof (cases "date_lt (P (endDate t)) (P (startDate t))")
        case True
        with named Some placed show ?thesis by (simp add: handleSubmit_dates)
      next
        case False
        with named Some placed show ?thesis by (simp add: handleSubmit_valid)
      qed
    qed
  qed
qed

text \<open>
  Claim C5, as stated, fails: the form has validation rules of its own. Submitting the
  form with an empty name shows the alert of \<^verbatim>\<open>validateForm\<close> and does not call
  \<^verbatim>\<open>onSubmit\<close>.
\<close>

theorem form_validation_counterexample:
  "handleSubmit example_trim example_Date_parse (Inr ()) empty_form
     = ([Alert ''Validation Error'' ''Please enter a trip name.''], Inr ())
   \<and> OnSubmit empty_form \<notin> set (fst (handleSubmit example_trim example_Date_parse (Inr ()) empty_form))"
  by (simp add: handleSubmit_def validateForm_def empty_form_def example_trim_def)

text \<open>
  Claim C5, amended. The form validates before it submits: a name that is empty after
  trimming, else a destination that is empty after trimming, else an end date before the
  start date stops the submission with a "Validation Error" alert. A form that passes
  the three checks is handed to \<^verbatim>\<open>onSubmit\<close>, and \<^verbatim>\<open>onSubmit\<close> is called exactly when the
  form passes them. Trimming is the engine's \<^verbatim>\<open>trim\<close>, whatever it removes.
\<close>

theorem handleSubmit_validates_locally:
  "(trim (name t) = [] \<longrightarrow>
      handleSubmit trim P r t = ([Alert ''Validation Error'' ''Please enter a trip name.''], Inr ()))
   \<and> (trim (name t) \<noteq> [] \<and> destination t = Some d \<and> trim d = [] \<longrightarrow>
      handleSubmit trim P r t = ([Alert ''Validation Error'' ''Please enter a destination.''], Inr ()))
   \<and> (trim (name t) \<noteq> [] \<and> destination t = Some d \<and> trim d \<noteq> []
        \<and> date_lt (P (endDate t)) (P (startDate t)) \<longrightarrow>
      handleSubmit trim P r t
        = ([Alert ''Validation Error'' ''End date must be after start date.''], Inr ()))
   \<and> (trim (name t) \<noteq> [] \<and> destination t = Some d \<and> trim d \<noteq> []
        \<and> \<not> date_lt (P (endDate t)) (P (startDate t)) \<longrightarrow>
      handleSubmit trim P (Inr ()) t = ([SetLoading True, OnSubmit t, OnClose, SetLoading False], Inr ()))
   \<and> (OnSubmit t \<in> set (fst (handleSubmit trim P r t)) \<longleftrightarrow>
        trim (name t) \<noteq> [] \<and> (\<exists>d. destination t = Some d \<and> trim d \<noteq> [])
        \<and> \<not> date_lt (P (endDate t)) (P (startDate t)))"
proof (intro conjI impI)
  show "handleSubmit trim P r t = ([Alert ''Validation Error'' ''Please enter a trip name.''], Inr ())"
    if "trim (name t) = []"
    using that by (rule handleSubmit_no_name)
  show "handleSubmit trim P r t = ([Alert ''Validation Error'' ''Please enter a destination.''], Inr ())"
    if "trim (name t) \<noteq> [] \<and> destination t = Some d \<and> trim d = []"
    using that by (simp add: handleSubmit_no_destination)
  show "handleSubmit trim P r t
      = ([Alert ''Validation Error'' ''End date must be after start date.''], Inr ())"
    if "trim (name t) \<noteq> [] \<and> destination t = Some d \<and> trim d \<noteq> []
        \<and> date_lt (P (endDate t)) (P (startDate t))"
    using that by (simp add: handleSubmit_dates)
  show "handleSubmit trim P (Inr ()) t
      = ([SetLoading True, OnSubmit t, OnClose, SetLoading False], Inr ())"
    if "trim (name t) \<noteq> [] \<and> destination t = Some d \<and> trim d \<noteq> []
        \<and> \<not> date_lt (P (endDate t)) (P (startDate t))"
    using that by (simp add: handleSubmit_valid)
  show "OnSubmit t \<in> set (fst (handleSubmit trim P r t)) \<longleftrightarrow>
        trim (name t) \<noteq> [] \<and> (\<exists>d. destination t = Some d \<and> trim d \<noteq> [])
        \<and> \<not> date_lt (P (endDate t)) (P (startDate t))"
    by (rule handleSubmit_calls_onSubmit_iff)
qed

theorem handleSubmit_validates_locally_witness:
  "handleSubmit example_trim example_Date_parse (Inr ()) lisbon_form
     = ([SetLoading True, OnSubmit lisbon_form, OnClose, SetLoading False], Inr ())
   \<and> handleSubmit example_trim example_Date_parse (Inr ())
       (lisbon_form\<lparr>endDate := ''2024-01-01T00:00:00.000Z'',
          startDate := ''2024-01-08T00:00:00.000Z''\<rparr>)
     = ([Alert ''Validation Error'' ''End date must be after start date.''], Inr ())
   \<and> handleSubmit example_trim example_Date_parse (Inr ()) (lisbon_form\<lparr>destination := Some ''  ''\<rparr>)
     = ([Alert ''Validation Error'' ''Please enter a destination.''], Inr ())
   \<and> example_trim (name lisbon_form) = ''Lisbon''"
proof -
  let ?late = "lisbon_form\<lparr>endDate := ''2024-01-01T00:00:00.000Z'',
      startDate := ''2024-01-08T00:00:00.000Z''\<rparr>"
  let ?blank = "lisbon_form\<lparr>destination := Some ''  ''\<rparr>"
  have n: "example_trim (name lisbon_form) = ''Lisbon''"
    by (simp add: lisbon_form_def example_trim_def example_space_def)
  have d: "destination lisbon_form = Some ''Portugal''" "example_trim ''Portugal'' \<noteq> []"
    by (simp_all add: lisbon_form_def example_trim_def example_space_def)
  have ok: "\<not> date_lt (example_Date_parse (endDate lisbon_form))
      (example_Date_parse (startDate lisbon_form))"
    by (simp add: lisbon_form_def example_Date_parse_def)
  have late: "name ?late = name lisbon_form" "destination ?late = Some ''Portugal''"
      "date_lt (example_Date_parse (endDate ?late)) (example_Date_parse (startDate ?late))"
    by (simp_all add: lisbon_form_def example_Date_parse_def)
  have blank: "name ?blank = name lisbon_form" "destination ?blank = Some ''  ''"
      "example_trim ''  '' = []"
    by (simp_all add: example_trim_def example_space_def)
  from handleSubmit_validates_locally
      [where t = lisbon_form and d = "''Portugal''" and trim = example_trim and P = example_Date_parse and r = "Inr ()"] n d ok
  have "handleSubmit example_trim example_Date_parse (Inr ()) lisbon_form
      = ([SetLoading True, OnSubmit lisbon_form, OnClose, SetLoading False], Inr ())"
    by simp
  moreover
  from handleSubmit_validates_locally
      [where t = ?late and d = "''Portugal''" and trim = example_trim and P = example_Date_parse and r = "Inr ()"] n d late
  have "handleSubmit example_trim example_Date_parse (Inr ()) ?late
      = ([Alert ''Validation Error'' ''End date must be after start date.''], Inr ())"
    by simp
  moreover
  from handleSubmit_validates_locally
      [where t = ?blank and d = "''  ''" and trim = example_trim and P = example_Date_parse and r = "Inr ()"] n blank
  have "handleSubmit example_trim example_Date_parse (Inr ()) ?blank
      = ([Alert ''Validation Error'' ''Please enter a destination.''], Inr ())"
    by simp
  ultimately show ?thesis
    using n by blast
qed

section \<open>The secure token manager\<close>

lemma async_return_same: "async_return p = p"
proof
  fix st
  show "async_return p st = p st"
  proof (cases "p st")
    case (Pair res st')
    then show ?thesis
      by (cases res) (simp_all add: async_return_def)
  qed
qed

text \<open>
  Claim C7. The token manager adds nothing to the secure store: for every key and value,
  \<^verbatim>\<open>setItem\<close>, \<^verbatim>\<open>getItem\<close> and \<^verbatim>\<open>removeItem\<close> are the operations of the same name of
  the external store, with the same result (value or rejection) and the same effect on
  the store, whatever that store is.
\<close>

theorem token_manager_delegates:
  "setItem this key val = ss_setItem (secureStore this) key val
   \<and> getItem this key = ss_getItem (secureStore this) key
   \<and> removeItem this key = ss_removeItem (secureStore this) key"
  by (simp add: setItem_def getItem_def removeItem_def async_return_same)

theorem token_manager_delegates_witness:
  "setItem example_token_manager ''token'' ''abc'' [] = (Inr (), [(''token'', ''abc'')])
   \<and> getItem example_token_manager ''token'' [(''token'', ''abc'')]
     = (Inr (Some ''abc''), [(''token'', ''abc'')])
   \<and> removeItem example_token_manager ''token'' [(''token'', ''abc'')] = (Inr (), [])
   \<and> getItem example_token_manager [] [] = (Inl (Error ''Invalid key''), [])"
proof -
  have store: "secureStore example_token_manager = list_store"
    by (simp add: example_token_manager_def)
  have "setItem example_token_manager ''token'' ''abc'' = ss_setItem list_store ''token'' ''abc''"
      "getItem example_token_manager ''token'' = ss_getItem list_store ''token''"
      "removeItem example_token_manager ''token'' = ss_removeItem list_store ''token''"
      "getItem example_token_manager [] = ss_getItem list_store []"
    using token_manager_delegates [of example_token_manager "''token''" "''abc''"]
      token_manager_delegates [of example_token_manager "[]" "''abc''"]
    unfolding store by blast+
  then show ?thesis
    by (simp add: list_store_def)
qed

section \<open>Logout\<close>

text \<open>
  Claim C8. After \<^verbatim>\<open>logout\<close>, from every state of the store and whether the remote
  sign-out returns, returns an error or throws, the store has no user and no token, is
  not loading, has no error and is not verifying; \<^verbatim>\<open>isInitialized\<close> and \<^verbatim>\<open>isFirstTime\<close>
  are as before.
\<close>

theorem logout_clears_session:
  "user (snd (logout r s)) = None
   \<and> token (snd (logout r s)) = None
   \<and> loading_auth (snd (logout r s)) = False
   \<and> error_auth (snd (logout r s)) = None
   \<and> isVerifying (snd (logout r s)) = False
   \<and> isInitialized (snd (logout r s)) = isInitialized s
   \<and> isFirstTime (snd (logout r s)) = isFirstTime s"
  by (simp add: logout_def)

theorem logout_clears_session_witness:
  "snd (logout (SignOutThrows (Error ''offline'')) signed_in)
     = (initial_AuthState :: int AuthState)\<lparr>isInitialized := True\<rparr>
   \<and> fst (logout (SignOutThrows (Error ''offline'')) signed_in) = [''[AuthStore] Logout error:'']
   \<and> user signed_in \<noteq> None"
proof -
  let ?after = "snd (logout (SignOutThrows (Error ''offline'')) signed_in)"
  have "user ?after = None" "token ?after = None" "loading_auth ?after = False"
      "error_auth ?after = None" "isVerifying ?after = False"
      "isInitialized ?after = isInitialized signed_in"
      "isFirstTime ?after = isFirstTime signed_in"
    using logout_clears_session [of "SignOutThrows (Error ''offline'')" signed_in]
    by blast+
  then have "?after = (initial_AuthState :: int AuthState)\<lparr>isInitialized := True\<rparr>"
    by (simp add: initial_AuthState_def signed_in_def)
  then show ?thesis
    by (simp add: logout_def signed_in_def)
qed

section \<open>Initialization of the auth store\<close>

lemma initialize_returns_at_once:
  "loading_auth s \<or> isInitialized s \<Longrightarrow> initialize p r s = ([], s)"
  by (simp add: initialize_def)

lemma initialize_settles:
  "loading_auth (snd (initialize p r s)) \<or> isInitialized (snd (initialize p r s))"
proof (cases "loading_auth s \<or> isInitialized s")
  case True
  then show ?thesis by (simp add: initialize_returns_at_once)
next
  case False
  then show ?thesis
    by (simp add: initialize_def Let_def split: prod.splits option.splits)
qed

text \<open>
  Claim C9. In a state where the store is initialized, or is loading, \<^verbatim>\<open>initialize\<close>
  returns at once: it logs nothing and leaves every field of the store as it is. So
  initializing again after \<^verbatim>\<open>initialize\<close> has run changes nothing, whatever the backend
  answers the second time.
\<close>

theorem initialize_idempotent:
  "(loading_auth s \<or> isInitialized s \<longrightarrow> initialize p r s = ([], s))
   \<and> initialize p r' (snd (initialize p r s)) = ([], snd (initialize p r s))"
  using initialize_settles [of p r s]
  by (simp add: initialize_returns_at_once)

theorem initialize_idempotent_witness:
  "isInitialized signed_in
   \<and> initialize (\<lambda>_. 0) (GetSessionReturns None None) signed_in = ([], signed_in)"
proof -
  have i: "isInitialized signed_in"
    by (simp add: signed_in_def)
  with initialize_idempotent [of signed_in "\<lambda>_. 0" "GetSessionReturns None None"]
  show ?thesis by blast
qed

section \<open>The tabs of the trip list\<close>

lemma searchFilter_status: "searchFilter low q (t\<lparr>trip_status := x\<rparr>) = searchFilter low q t"
  by (simp add: searchFilter_def)

lemma search_pass:
  "(if q \<noteq> [] then filter (searchFilter low (low q))
        (map (\<lambda>t. t\<lparr>trip_status := normalizeStatus up (trip_status t)\<rparr>) trips)
    else map (\<lambda>t. t\<lparr>trip_status := normalizeStatus up (trip_status t)\<rparr>) trips)
   = map (\<lambda>t. t\<lparr>trip_status := normalizeStatus up (trip_status t)\<rparr>)
       (filter (search_matching low q) trips)"
proof (cases "q = []")
  case True
  then show ?thesis by (simp add: search_matching_def)
next
  case False
  then have "search_matching low q = searchFilter low (low q)"
    by (simp add: search_matching_def fun_eq_iff)
  with False show ?thesis
    by (simp add: filter_map o_def searchFilter_status)
qed

lemma passes:
  "map (\<lambda>t. t\<lparr>trip_status := map_option up (trip_status t)\<rparr>)
     (if q \<noteq> [] then filter (searchFilter low (low q))
          (map (\<lambda>t. t\<lparr>trip_status := normalizeStatus up (trip_status t)\<rparr>) trips)
      else map (\<lambda>t. t\<lparr>trip_status := normalizeStatus up (trip_status t)\<rparr>) trips)
   = map (normalized up) (filter (search_matching low q) trips)"
  unfolding search_pass by (simp add: o_def normalized_def normalized_status_def)

lemma tab_filter:
  "filter p (map (normalized up) (filter (search_matching low q) trips))
   = map (normalized up) (filter (\<lambda>t. search_matching low q t \<and> p (normalized up t)) trips)"
  by (simp add: filter_map o_def)

lemma trip_status_normalized: "trip_status (normalized up t) = normalized_status up t"
  by (simp add: normalized_def)

lemma endDate_normalized: "endDate (normalized up t) = endDate t"
  by (simp add: normalized_def)

lemma filteredTrips_eq:
  "filteredTrips up low P now trips tb q
   = map (normalized up) (filter (\<lambda>t. search_matching low q t \<and> in_tab up P now tb t) trips)"
proof (cases tb)
  case Active
  then show ?thesis
    unfolding filteredTrips_def Let_def passes
    by (simp add: tab_filter trip_status_normalized)
next
  case Recent
  then show ?thesis
    unfolding filteredTrips_def Let_def passes
    by (simp add: tab_filter trip_status_normalized endDate_normalized)
next
  case Cancelled
  then show ?thesis
    unfolding filteredTrips_def Let_def passes
    by (simp add: tab_filter trip_status_normalized)
qed

lemma normalized_status_upper:
  assumes idem: "\<forall>x. up (up x) = up x" and planning: "up ''PLANNING'' = ''PLANNING''"
  shows "normalized_status up t
    = (case trip_status t of
         None \<Rightarrow> None
       | Some st \<Rightarrow> Some (if up st = ''PLANNED'' then ''PLANNING'' else up st))"
proof (cases "trip_status t")
  case None
  then show ?thesis by (simp add: normalized_status_def normalizeStatus_def)
next
  case (Some st)
  show ?thesis
  proof (cases "up st = ''PLANNED''")
    case True
    with Some planning show ?thesis
      by (simp add: normalized_status_def normalizeStatus_def)
  next
    case False
    with Some idem show ?thesis
      by (simp add: normalized_status_def normalizeStatus_def)
  qed
qed

text \<open>
  Claim C10. The filter normalizes the status of every trip and keeps the order of the
  trips: for every engine, the Active tab holds exactly the trips that match the search
  and whose normalized status is ACTIVE or PLANNING, the Cancelled tab those whose
  normalized status is CANCELLED, the Recent tab those whose normalized status is
  COMPLETED or whose end date is before now. With an engine whose \<^verbatim>\<open>toUpperCase\<close> gives
  the same again on its own results and leaves PLANNING as it is, the normalized status
  is the status in upper case, with PLANNING for PLANNED. A trip that matches the search,
  is ACTIVE and has ended is under Active and under Recent.
\<close>

theorem filteredTrips_tabs:
  "filteredTrips up low P now trips tb q
     = map (normalized up) (filter (\<lambda>t. search_matching low q t \<and> in_tab up P now tb t) trips)
   \<and> ((\<forall>x. up (up x) = up x) \<and> up ''PLANNING'' = ''PLANNING'' \<longrightarrow>
        normalized_status up t
          = (case trip_status t of
               None \<Rightarrow> None
             | Some st \<Rightarrow> Some (if up st = ''PLANNED'' then ''PLANNING'' else up st)))
   \<and> (t \<in> set trips \<and> search_matching low q t
        \<and> normalized_status up t = Some ''ACTIVE''
        \<and> date_lt (P (endDate t)) (Some now) \<longrightarrow>
      normalized up t \<in> set (filteredTrips up low P now trips Active q)
      \<and> normalized up t \<in> set (filteredTrips up low P now trips Recent q))"
proof (intro conjI impI)
  show "filteredTrips up low P now trips tb q
      = map (normalized up)
          (filter (\<lambda>t. search_matching low q t \<and> in_tab up P now tb t) trips)"
    by (rule filteredTrips_eq)
  show "normalized_status up t
      = (case trip_status t of
           None \<Rightarrow> None
         | Some st \<Rightarrow> Some (if up st = ''PLANNED'' then ''PLANNING'' else up st))"
    if "(\<forall>x. up (up x) = up x) \<and> up ''PLANNING'' = ''PLANNING''"
    using that by (simp add: normalized_status_upper)
next
  assume both: "t \<in> set trips \<and> search_matching low q t
      \<and> normalized_status up t = Some ''ACTIVE''
      \<and> date_lt (P (endDate t)) (Some now)"
  then show "normalized up t \<in> set (filteredTrips up low P now trips Active q)"
    unfolding filteredTrips_eq by simp
  from both show "normalized up t \<in> set (filteredTrips up low P now trips Recent q)"
    unfolding filteredTrips_eq by simp
qed

text \<open>The examples, with the engine's functions on ASCII text.\<close>

lemma char_eq_char_of: "c = char_of (n::nat) \<longleftrightarrow> take_bit 8 n = (of_char c :: nat)"
  using char_of_eq_iff [of n c] by auto

lemmas char_of_eval = char_of_eq_iff char_eq_char_of

lemma example_upper_char_idem: "example_upper_char (example_upper_char c) = example_upper_char c"
  unfolding example_upper_char_def Let_def by auto

lemma example_toUpperCase_idem:
  "example_toUpperCase (example_toUpperCase s) = example_toUpperCase s"
  by (simp add: example_toUpperCase_def example_upper_char_idem)

theorem filteredTrips_tabs_witness:
  "filteredTrips example_toUpperCase example_toLowerCase example_Date_parse example_now
       [alps_trip, rome_trip, oslo_trip] Active []
     = [alps_trip\<lparr>trip_status := Some ''ACTIVE''\<rparr>, rome_trip\<lparr>trip_status := Some ''PLANNING''\<rparr>]
   \<and> filteredTrips example_toUpperCase example_toLowerCase example_Date_parse example_now
       [alps_trip, rome_trip, oslo_trip] Recent []
     = [alps_trip\<lparr>trip_status := Some ''ACTIVE''\<rparr>]
   \<and> filteredTrips example_toUpperCase example_toLowerCase example_Date_parse example_now
       [alps_trip, rome_trip, oslo_trip] Cancelled ''NOR''
     = [oslo_trip]
   \<and> alps_trip\<lparr>trip_status := Some ''ACTIVE''\<rparr>
       \<in> set (filteredTrips example_toUpperCase example_toLowerCase example_Date_parse
                example_now [alps_trip, rome_trip] Active ''alp'')
   \<and> alps_trip\<lparr>trip_status := Some ''ACTIVE''\<rparr>
       \<in> set (filteredTrips example_toUpperCase example_toLowerCase example_Date_parse
                example_now [alps_trip, rome_trip] Recent ''alp'')
   \<and> normalized_status example_toUpperCase rome_trip = Some ''PLANNING''"
proof -
  let ?up = example_toUpperCase and ?low = example_toLowerCase
  let ?all = "[alps_trip, rome_trip, oslo_trip]"
  have engine: "(\<forall>x. ?up (?up x) = ?up x) \<and> ?up ''PLANNING'' = ''PLANNING''"
    by (simp add: example_toUpperCase_idem)
      (simp add: example_toUpperCase_def example_upper_char_def)
  have raw: "trip_status alps_trip = Some ''active''" "trip_status rome_trip = Some ''Planned''"
      "trip_status oslo_trip = Some ''CANCELLED''"
    by (simp_all add: alps_trip_def rome_trip_def oslo_trip_def)
  have upper: "?up ''active'' = ''ACTIVE''" "?up ''Planned'' = ''PLANNED''"
      "?up ''CANCELLED'' = ''CANCELLED''"
    by (simp_all add: example_toUpperCase_def example_upper_char_def char_of_eval)
  from filteredTrips_tabs [where up = ?up and t = alps_trip] engine
  have "normalized_status ?up alps_trip
      = (case trip_status alps_trip of
           None \<Rightarrow> None
         | Some st \<Rightarrow> Some (if ?up st = ''PLANNED'' then ''PLANNING'' else ?up st))"
    by blast
  then have st_alps: "normalized_status ?up alps_trip = Some ''ACTIVE''"
    by (simp add: raw upper)
  from filteredTrips_tabs [where up = ?up and t = rome_trip] engine
  have "normalized_status ?up rome_trip
      = (case trip_status rome_trip of
           None \<Rightarrow> None
         | Some st \<Rightarrow> Some (if ?up st = ''PLANNED'' then ''PLANNING'' else ?up st))"
    by blast
  then have st_rome: "normalized_status ?up rome_trip = Some ''PLANNING''"
    by (simp add: raw upper)
  from filteredTrips_tabs [where up = ?up and t = oslo_trip] engine
  have "normalized_status ?up oslo_trip
      = (case trip_status oslo_trip of
           None \<Rightarrow> None
         | Some st \<Rightarrow> Some (if ?up st = ''PLANNED'' then ''PLANNING'' else ?up st))"
    by blast
  then have st_oslo: "normalized_status ?up oslo_trip = Some ''CANCELLED''"
    by (simp add: raw upper)
  note st = st_alps st_rome st_oslo
  have nm: "normalized ?up alps_trip = alps_trip\<lparr>trip_status := Some ''ACTIVE''\<rparr>"
      "normalized ?up rome_trip = rome_trip\<lparr>trip_status := Some ''PLANNING''\<rparr>"
      "normalized ?up oslo_trip = oslo_trip"
    unfolding normalized_def st by (simp_all add: oslo_trip_def)
  have past: "date_lt (example_Date_parse (endDate alps_trip)) (Some example_now)"
      "\<not> date_lt (example_Date_parse (endDate rome_trip)) (Some example_now)"
      "\<not> date_lt (example_Date_parse (endDate oslo_trip)) (Some example_now)"
    by (simp_all add: example_Date_parse_def example_now_def
        alps_trip_def rome_trip_def oslo_trip_def)
  have any: "search_matching ?low [] alps_trip" "search_matching ?low [] rome_trip"
      "search_matching ?low [] oslo_trip"
    by (simp_all add: search_matching_def)
  have nor: "\<not> search_matching ?low ''NOR'' alps_trip"
      "\<not> search_matching ?low ''NOR'' rome_trip"
      "search_matching ?low ''NOR'' oslo_trip"
    by (simp_all add: search_matching_def searchFilter_def example_toLowerCase_def
        example_lower_char_def char_of_eval alps_trip_def rome_trip_def oslo_trip_def)
  have alp: "search_matching ?low ''alp'' alps_trip"
    by (simp add: search_matching_def searchFilter_def example_toLowerCase_def
        example_lower_char_def char_of_eval alps_trip_def)
  from filteredTrips_tabs
      [where up = ?up and low = ?low and P = example_Date_parse and now = example_now
        and trips = ?all and tb = Active and q = "[]"]
  have "filteredTrips ?up ?low example_Date_parse example_now ?all Active []
      = [alps_trip\<lparr>trip_status := Some ''ACTIVE''\<rparr>, rome_trip\<lparr>trip_status := Some ''PLANNING''\<rparr>]"
    by (simp add: st nm any)
  moreover
  from filteredTrips_tabs
      [where up = ?up and low = ?low and P = example_Date_parse and now = example_now
        and trips = ?all and tb = Recent and q = "[]"]
  have "filteredTrips ?up ?low example_Date_parse example_now ?all Recent []
      = [alps_trip\<lparr>trip_status := Some ''ACTIVE''\<rparr>]"
    by (simp add: st nm any past)
  moreover
  from filteredTrips_tabs
      [where up = ?up and low = ?low and P = example_Date_parse and now = example_now
        and trips = ?all and tb = Cancelled and q = "''NOR''"]
  have "filteredTrips ?up ?low example_Date_parse example_now ?all Cancelled ''NOR''
      = [oslo_trip]"
    by (simp add: st nm nor)
  moreover
  from filteredTrips_tabs
      [where up = ?up and low = ?low and P = example_Date_parse and now = example_now
        and trips = "[alps_trip, rome_trip]" and q = "''alp''" and t = alps_trip]
    st(1) past(1) alp
  have "normalized ?up alps_trip
        \<in> set (filteredTrips ?up ?low example_Date_parse example_now
                 [alps_trip, rome_trip] Active ''alp'')
      \<and> normalized ?up alps_trip
        \<in> set (filteredTrips ?up ?low example_Date_parse example_now
                 [alps_trip, rome_trip] Recent ''alp'')"
    by simp
  ultimately show ?thesis
    unfolding nm using st_rome by blast
qed

end
